theory Spec2Isabelle
  imports Main
begin

section \<open>Python values used by the portal\<close>

text \<open>
  A Python \<open>str\<close> is modelled as the list of its code points; \<^typ>\<open>char\<close> covers the
  code points 0 to 255, so \<open>CHR 0xB2\<close> is the one-character string SUPERSCRIPT TWO.
  The character classes below are Python's on that range.
\<close>

datatype exn =
    ValueError string
  | TypeError string
  | AttributeError string
  | CalledProcessError string
  | TimeoutExpired string
  | OtherError string

fun str_exn :: "exn \<Rightarrow> string" where
  "str_exn (ValueError m) = m"
| "str_exn (TypeError m) = m"
| "str_exn (AttributeError m) = m"
| "str_exn (CalledProcessError m) = m"
| "str_exn (TimeoutExpired m) = m"
| "str_exn (OtherError m) = m"

definition code_point :: "char \<Rightarrow> nat" where
  "code_point c = of_char c"

definition isspace_char :: "char \<Rightarrow> bool" where
  \<comment> \<open>\<open>str.isspace\<close>: TAB, LF, VT, FF, CR, FS, GS, RS, US, SPACE, NEL, NBSP.\<close>
  "isspace_char c =
     (let n = code_point c
      in (9 \<le> n \<and> n \<le> 13) \<or> (28 \<le> n \<and> n \<le> 32) \<or> n = 133 \<or> n = 160)"

definition isdecimal_char :: "char \<Rightarrow> bool" where
  \<comment> \<open>the characters \<open>int()\<close> reads as digits: 0 to 9\<close>
  "isdecimal_char c = (let n = code_point c in 48 \<le> n \<and> n \<le> 57)"

definition isdigit_char :: "char \<Rightarrow> bool" where
  \<comment> \<open>\<open>str.isdigit\<close> also accepts the superscript digits two, three and one\<close>
  "isdigit_char c =
     (let n = code_point c in (48 \<le> n \<and> n \<le> 57) \<or> n = 178 \<or> n = 179 \<or> n = 185)"

definition isdigit :: "string \<Rightarrow> bool" where
  \<comment> \<open>\<open>s.isdigit()\<close>: at least one character, all of them digits\<close>
  "isdigit s = (s \<noteq> [] \<and> list_all isdigit_char s)"

definition strip :: "string \<Rightarrow> string" where
  \<comment> \<open>\<open>s.strip()\<close>: leading and trailing whitespace removed\<close>
  "strip s = rev (dropWhile isspace_char (rev (dropWhile isspace_char s)))"

fun split :: "char \<Rightarrow> string \<Rightarrow> string list" where
  \<comment> \<open>\<open>s.split(sep)\<close> for a one-character separator: never an empty list\<close>
  "split sep [] = [[]]"
| "split sep (c # cs) =
     (if c = sep then [] # split sep cs
      else (case split sep cs of [] \<Rightarrow> [[c]] | p # ps \<Rightarrow> (c # p) # ps))"

definition digit_value :: "char \<Rightarrow> int" where
  "digit_value c = int (code_point c) - 48"

definition int_py :: "string \<Rightarrow> exn + int" where
  \<comment> \<open>\<open>int(s)\<close> on a string that passed \<open>isdigit()\<close>: the decimal value when every
      character is one of 0 to 9, ValueError on a superscript digit. (On other strings
      \<open>int()\<close> also reads a sign, whitespace and underscores; the scan never passes one.
      Integers are unbounded: a limit of the interpreter on the number of digits is not modelled.)\<close>
  "int_py s =
     (if s \<noteq> [] \<and> list_all isdecimal_char s
      then Inr (foldl (\<lambda>acc c. 10 * acc + digit_value c) 0 s)
      else Inl (ValueError (''invalid literal for int() with base 10: '' @ [CHR 0x27] @ s @ [CHR 0x27])))"

section \<open>Network Adapter: scanning\<close>

record network =
  ssid :: string
  signal :: int
  security :: string

text \<open>
  The body of the loop of \<open>scan_wifi_networks\<close> for one line that has at least three
  fields: the three values it computes, in the order it computes them. \<open>int()\<close> may raise.
\<close>

definition parse_signal :: "string \<Rightarrow> exn + int" where
  \<comment> \<open>\<open>int(parts[1]) if parts[1].isdigit() else -100\<close>\<close>
  "parse_signal field = (if isdigit field then int_py field else Inr (- 100))"

definition parse_security :: "string \<Rightarrow> string" where
  \<comment> \<open>\<open>parts[2].strip() if parts[2] else 'Open'\<close>\<close>
  "parse_security field = (if field \<noteq> [] then strip field else ''Open'')"

fun scan_loop :: "string list \<Rightarrow> network list \<Rightarrow> string set \<Rightarrow> exn + network list" where
  "scan_loop [] networks seen_ssids = Inr networks"
| "scan_loop (line # rest) networks seen_ssids =
     (if line = [] then scan_loop rest networks seen_ssids
      else
        (case split (CHR '':'') line of
           p0 # p1 # p2 # others \<Rightarrow>
             (case parse_signal p1 of
                Inl e \<Rightarrow> Inl e
              | Inr sig \<Rightarrow>
                  (if strip p0 \<noteq> [] \<and> strip p0 \<notin> seen_ssids
                   then scan_loop rest
                          (networks @ [\<lparr>ssid = strip p0, signal = sig, security = parse_security p2\<rparr>])
                          (insert (strip p0) seen_ssids)
                   else scan_loop rest networks seen_ssids))
         | _ \<Rightarrow> scan_loop rest networks seen_ssids))"

definition sort_strongest_first :: "network list \<Rightarrow> network list" where
  \<comment> \<open>\<open>networks.sort(key=lambda x: x['signal'], reverse=True)\<close>: stable, descending\<close>
  "sort_strongest_first networks = sort_key (\<lambda>n. - signal n) networks"

definition parse_scan :: "string \<Rightarrow> exn + network list" where
  \<comment> \<open>what \<open>scan_wifi_networks\<close> does with the standard output of the tool\<close>
  "parse_scan out =
     (case scan_loop (split (CHR 0x0A) (strip out)) [] {} of
        Inl e \<Rightarrow> Inl e
      | Inr networks \<Rightarrow> Inr (sort_strongest_first networks))"

section \<open>The external tool and the portal object\<close>

text \<open>
  The network-management tool is the environment. \<open>tool i cmd\<close> is what the \<open>i\<close>-th
  call of \<open>subprocess.run\<close> of the process's life (counted from 0) meets when it runs
  \<open>cmd\<close>: the command ends after some seconds with an exit status and its two output
  streams, or the call raises something else than a timeout or a checked exit status
  (an \<open>OSError\<close>, output that cannot be decoded). Every command ends; pauses
  (\<open>time.sleep\<close>) and logging have no effect on the state and are left out.
\<close>

datatype outcome =
    Exits nat int string string
  | Breaks string

type_synonym tool = "nat \<Rightarrow> string list \<Rightarrow> outcome"

record completed_process =
  returncode :: int
  stdout :: string
  stderr :: string

text \<open>
  The fields of \<open>WiFiConnect\<close> set by \<open>__init__\<close>, and what the process has done so far:
  the commands handed to \<open>subprocess.run\<close>, the calls of \<open>connect_to_network\<close>, the
  \<open>shutdown_hotspot_delayed\<close> threads started and still asleep, and whether the process
  has ended.
\<close>

record wifi_connect =
  hotspot_name :: string
  hotspot_password :: string
  interface :: string
  ap_ip :: string
  is_hotspot_active :: bool
  connection_status :: string
  commands :: "string list list"
  join_calls :: nat
  shutdown_threads :: nat
  exited :: bool

definition init :: wifi_connect where
  "init = \<lparr>hotspot_name = ''Setup-Robot-WiFi'', hotspot_password = [], interface = ''wlan0'',
            ap_ip = ''10.42.0.1'', is_hotspot_active = False,
            connection_status = ''disconnected'', commands = [], join_calls = 0,
            shutdown_threads = 0, exited = False\<rparr>"

definition has_nul :: "string list \<Rightarrow> bool" where
  "has_nul cmd = list_ex (\<lambda>a. CHR 0x00 \<in> set a) cmd"

definition timed_out :: "nat option \<Rightarrow> nat \<Rightarrow> bool" where
  "timed_out timeout secs = (case timeout of None \<Rightarrow> False | Some t \<Rightarrow> t < secs)"

definition subprocess_run ::
  "tool \<Rightarrow> string list \<Rightarrow> nat option \<Rightarrow> bool \<Rightarrow> wifi_connect \<Rightarrow> (exn + completed_process) \<times> wifi_connect" where
  \<comment> \<open>\<open>subprocess.run(cmd, capture_output=True, timeout=..., check=...)\<close>\<close>
  "subprocess_run tool cmd timeout check w =
     (if has_nul cmd then (Inl (ValueError ''embedded null byte''), w)
      else
        (let w' = w\<lparr>commands := commands w @ [cmd]\<rparr>
         in case tool (length (commands w)) cmd of
              Breaks msg \<Rightarrow> (Inl (OtherError msg), w')
            | Exits secs rc out err \<Rightarrow>
                if timed_out timeout secs then (Inl (TimeoutExpired ''timed out''), w')
                else if check \<and> rc \<noteq> 0 then (Inl (CalledProcessError ''non-zero exit status''), w')
                else (Inr \<lparr>returncode = rc, stdout = out, stderr = err\<rparr>, w')))"

text \<open>
  A value of a JSON request body, by what the portal can observe of it: a string, or any
  other value (null, a boolean, a number, an array, an object) with its truth value and
  its \<open>str()\<close>. A value that is no string cannot be an argument of a command:
  \<open>subprocess.run\<close> raises TypeError before anything runs.
\<close>

datatype json_value =
    JString string
  | JOther bool string

fun truthy :: "json_value \<Rightarrow> bool" where
  "truthy (JString s) = (s \<noteq> [])"
| "truthy (JOther t r) = t"

fun py_str :: "json_value \<Rightarrow> string" where
  "py_str (JString s) = s"
| "py_str (JOther t r) = r"

definition py_None :: json_value where
  "py_None = JOther False ''None''"

definition dict_get :: "(string \<times> json_value) list \<Rightarrow> string \<Rightarrow> json_value \<Rightarrow> json_value" where
  \<comment> \<open>\<open>data.get(key, default)\<close>\<close>
  "dict_get d k dflt = (case map_of d k of None \<Rightarrow> dflt | Some v \<Rightarrow> v)"

section \<open>Network Adapter: joining, access point\<close>

fun contains :: "string \<Rightarrow> string \<Rightarrow> bool" where
  \<comment> \<open>\<open>needle in haystack\<close>\<close>
  "contains needle [] = (needle = [])"
| "contains needle (c # cs) = (take (length needle) (c # cs) = needle \<or> contains needle cs)"

definition verify_and_return :: "tool \<Rightarrow> wifi_connect \<Rightarrow> bool \<times> wifi_connect" where
  \<comment> \<open>the branch \<open>result.returncode == 0\<close> of \<open>connect_to_network\<close>\<close>
  "verify_and_return tool w =
     (let w1 = w\<lparr>connection_status := ''connected''\<rparr>
      in case subprocess_run tool [''nmcli'', ''device'', ''show'', interface w1] None False w1 of
           (Inl e, w2) \<Rightarrow> (False, w2)
         | (Inr ip_check, w2) \<Rightarrow>
             if contains ''IP4.ADDRESS'' (stdout ip_check) then (True, w2) else (True, w2))"

definition run_join :: "tool \<Rightarrow> string list \<Rightarrow> wifi_connect \<Rightarrow> bool \<times> wifi_connect" where
  \<comment> \<open>\<open>subprocess.run(cmd, capture_output=True, text=True, timeout=30)\<close> and what follows\<close>
  "run_join tool cmd w =
     (case subprocess_run tool cmd (Some 30) False w of
        (Inl e, w1) \<Rightarrow> (False, w1)
      | (Inr result, w1) \<Rightarrow>
          if returncode result = 0 then verify_and_return tool w1 else (False, w1))"

definition connect_to_network :: "tool \<Rightarrow> json_value \<Rightarrow> json_value \<Rightarrow> wifi_connect \<Rightarrow> bool \<times> wifi_connect" where
  "connect_to_network tool ssid' password w0 =
     (let w = w0\<lparr>join_calls := join_calls w0 + 1\<rparr>
      in case ssid' of
           JOther t r \<Rightarrow> (False, w)
         | JString name \<Rightarrow>
             (case subprocess_run tool [''nmcli'', ''connection'', ''delete'', ''id'', name] None False w of
                (Inl e, w1) \<Rightarrow> (False, w1)
              | (Inr cleanup, w1) \<Rightarrow>
                  if truthy password then
                    (case password of
                       JOther t r \<Rightarrow> (False, w1)
                     | JString secret \<Rightarrow>
                         run_join tool [''nmcli'', ''device'', ''wifi'', ''connect'', name, ''password'', secret] w1)
                  else run_join tool [''nmcli'', ''device'', ''wifi'', ''connect'', name] w1))"

definition create_hotspot :: "tool \<Rightarrow> wifi_connect \<Rightarrow> bool \<times> wifi_connect" where
  "create_hotspot tool w =
     (case subprocess_run tool [''nmcli'', ''connection'', ''delete'', ''Hotspot''] None False w of
        (Inl e, w1) \<Rightarrow> (False, w1)
      | (Inr r1, w1) \<Rightarrow>
          (case subprocess_run tool
                  [''nmcli'', ''connection'', ''add'', ''type'', ''wifi'', ''ifname'', interface w1,
                   ''con-name'', ''Hotspot'', ''autoconnect'', ''yes'', ''ssid'', hotspot_name w1]
                  None False w1 of
             (Inl e, w2) \<Rightarrow> (False, w2)
           | (Inr result, w2) \<Rightarrow>
               if returncode result \<noteq> 0 then (False, w2)
               else
                 (case subprocess_run tool
                         [''nmcli'', ''connection'', ''modify'', ''Hotspot'', ''802-11-wireless.mode'', ''ap'',
                          ''802-11-wireless.band'', ''bg'', ''ipv4.method'', ''shared'']
                         None True w2 of
                    (Inl e, w3) \<Rightarrow> (False, w3)
                  | (Inr r3, w3) \<Rightarrow>
                      (case subprocess_run tool [''nmcli'', ''connection'', ''up'', ''Hotspot''] None False w3 of
                         (Inl e, w4) \<Rightarrow> (False, w4)
                       | (Inr up, w4) \<Rightarrow>
                           if returncode up = 0 then (True, w4\<lparr>is_hotspot_active := True\<rparr>)
                           else (False, w4)))))"

definition shutdown_hotspot :: "tool \<Rightarrow> wifi_connect \<Rightarrow> wifi_connect" where
  "shutdown_hotspot tool w =
     (case subprocess_run tool [''nmcli'', ''connection'', ''down'', ''Hotspot''] None False w of
        (Inl e, w1) \<Rightarrow> w1
      | (Inr r1, w1) \<Rightarrow>
          (case subprocess_run tool [''nmcli'', ''connection'', ''delete'', ''Hotspot''] None False w1 of
             (Inl e, w2) \<Rightarrow> w2
           | (Inr r2, w2) \<Rightarrow> w2\<lparr>is_hotspot_active := False\<rparr>))"

definition shutdown_hotspot_delayed :: "tool \<Rightarrow> wifi_connect \<Rightarrow> wifi_connect" where
  \<comment> \<open>the thread wakes after its pause: teardown, then \<open>os._exit(0)\<close>\<close>
  "shutdown_hotspot_delayed tool w =
     (shutdown_hotspot tool (w\<lparr>shutdown_threads := shutdown_threads w - 1\<rparr>))\<lparr>exited := True\<rparr>"

definition scan_wifi_networks :: "tool \<Rightarrow> wifi_connect \<Rightarrow> (exn + network list) \<times> wifi_connect" where
  "scan_wifi_networks tool w =
     (case subprocess_run tool
             [''nmcli'', ''-t'', ''-f'', ''SSID,SIGNAL,SECURITY'', ''device'', ''wifi'', ''list''] None True w of
        (Inl (CalledProcessError m), w1) \<Rightarrow> (Inr [], w1)
      | (Inl e, w1) \<Rightarrow> (Inl e, w1)
      | (Inr result, w1) \<Rightarrow> (parse_scan (stdout result), w1))"

section \<open>HTTP Service\<close>

datatype field =
    FBool bool
  | FStr string
  | FValue json_value
  | FNetworks "network list"

datatype response =
    Page
  | Json "(string \<times> field) list"
  | OptionsReply
  | NotFound
  | MethodNotAllowed

text \<open>
  What \<open>request.get_json()\<close> gives the \<open>/connect\<close> view: it raises (a body that is not
  JSON), or returns a value that is no dict (named by its type), or returns a dict.
\<close>

datatype body =
    Raises string
  | NotDict string
  | Dict "(string \<times> json_value) list"

definition error_envelope :: "string \<Rightarrow> response" where
  "error_envelope msg = Json [(''success'', FBool False), (''error'', FStr msg)]"

definition render_portal_page :: response where
  \<comment> \<open>the embedded page, a constant of the source\<close>
  "render_portal_page = Page"

definition scan_networks :: "tool \<Rightarrow> wifi_connect \<Rightarrow> response \<times> wifi_connect" where
  "scan_networks tool w =
     (case scan_wifi_networks tool w of
        (Inl e, w1) \<Rightarrow> (error_envelope (str_exn e), w1)
      | (Inr networks, w1) \<Rightarrow> (Json [(''success'', FBool True), (''networks'', FNetworks networks)], w1))"

definition connect_wifi :: "tool \<Rightarrow> body \<Rightarrow> wifi_connect \<Rightarrow> response \<times> wifi_connect" where
  "connect_wifi tool data w =
     (case data of
        Raises msg \<Rightarrow> (error_envelope msg, w)
      | NotDict tname \<Rightarrow>
          (error_envelope ([CHR 0x27] @ tname @ [CHR 0x27] @ '' object has no attribute '' @ [CHR 0x27] @ ''get'' @ [CHR 0x27]), w)
      | Dict d \<Rightarrow>
          (let ssid' = dict_get d ''ssid'' py_None;
               password = dict_get d ''password'' (JString [])
           in if \<not> truthy ssid' then (error_envelope ''SSID is required'', w)
              else
                (case connect_to_network tool ssid' password w of
                   (True, w1) \<Rightarrow>
                     (Json [(''success'', FBool True),
                            (''message'', FStr (''Successfully connected to '' @ py_str ssid' @
                                               ''! Portal will shut down in a few seconds.'')),
                            (''connected'', FBool True),
                            (''ssid'', FValue ssid')],
                      w1\<lparr>shutdown_threads := shutdown_threads w1 + 1\<rparr>)
                 | (False, w1) \<Rightarrow>
                     (error_envelope ''Failed to connect to network. Please check your credentials and try again.'', w1))))"

definition get_status :: "wifi_connect \<Rightarrow> response" where
  "get_status w =
     Json [(''hotspot_active'', FBool (is_hotspot_active w)),
           (''connection_status'', FStr (connection_status w)),
           (''hotspot_name'', FStr (hotspot_name w))]"

datatype http_method = GET | HEAD | POST | PUT | DELETE | PATCH | OPTIONS

datatype view = Index | Portal | Scan_networks | Connect_wifi | Get_status

definition url_map :: "(string \<times> http_method list \<times> view) list" where
  \<comment> \<open>the routes \<open>setup_routes\<close> registers; a route without \<open>methods\<close> answers GET and HEAD\<close>
  "url_map =
     [(''/'', [GET, HEAD], Index),
      (''/portal'', [GET, HEAD], Portal),
      (''/scan'', [GET, HEAD], Scan_networks),
      (''/connect'', [POST], Connect_wifi),
      (''/status'', [GET, HEAD], Get_status)]"

fun call_view :: "tool \<Rightarrow> view \<Rightarrow> body \<Rightarrow> wifi_connect \<Rightarrow> response \<times> wifi_connect" where
  "call_view tool Index data w = (render_portal_page, w)"
| "call_view tool Portal data w = (render_portal_page, w)"
| "call_view tool Scan_networks data w = scan_networks tool w"
| "call_view tool Connect_wifi data w = connect_wifi tool data w"
| "call_view tool Get_status data w = (get_status w, w)"

definition dispatch :: "tool \<Rightarrow> http_method \<Rightarrow> string \<Rightarrow> body \<Rightarrow> wifi_connect \<Rightarrow> response \<times> wifi_connect" where
  \<comment> \<open>the framework's routing: unknown path 404, known path with another method 405\<close>
  "dispatch tool m path data w =
     (case map_of url_map path of
        None \<Rightarrow> (NotFound, w)
      | Some (methods, v) \<Rightarrow>
          if m \<in> set methods then call_view tool v data w
          else if m = OPTIONS then (OptionsReply, w)
          else (MethodNotAllowed, w))"

section \<open>One process lifetime\<close>

datatype event =
    Request http_method string body
  | Thread_wakes
  | Server_stops

definition startup :: "tool \<Rightarrow> wifi_connect \<Rightarrow> wifi_connect" where
  \<comment> \<open>\<open>run\<close> up to the point where the server listens; a failed access point ends it\<close>
  "startup tool w =
     (case create_hotspot tool w of
        (True, w1) \<Rightarrow> w1
      | (False, w1) \<Rightarrow> (shutdown_hotspot tool w1)\<lparr>exited := True\<rparr>)"

definition step :: "tool \<Rightarrow> event \<Rightarrow> wifi_connect \<Rightarrow> wifi_connect" where
  "step tool ev w =
     (if exited w then w
      else
        (case ev of
           Request m path data \<Rightarrow> snd (dispatch tool m path data w)
         | Thread_wakes \<Rightarrow> if 0 < shutdown_threads w then shutdown_hotspot_delayed tool w else w
         | Server_stops \<Rightarrow> (shutdown_hotspot tool w)\<lparr>exited := True\<rparr>))"

fun trace :: "tool \<Rightarrow> event list \<Rightarrow> wifi_connect \<Rightarrow> wifi_connect list" where
  \<comment> \<open>the states the process goes through, the first one included\<close>
  "trace tool [] w = [w]"
| "trace tool (ev # evs) w = w # trace tool evs (step tool ev w)"

fun count_changes :: "string \<Rightarrow> string \<Rightarrow> string list \<Rightarrow> nat" where
  \<comment> \<open>how often a sequence of values goes from \<open>a\<close> directly to \<open>b\<close>\<close>
  "count_changes a b (x # y # rest) =
     (if x = a \<and> y = b then 1 else 0) + count_changes a b (y # rest)"
| "count_changes a b rest = 0"

section \<open>Views of the scan output used to state its properties\<close>

definition line_record :: "string \<Rightarrow> network option" where
  \<comment> \<open>the record a line of the output stands for, when it has its three fields\<close>
  "line_record line =
     (case split (CHR '':'') line of
        p0 # p1 # p2 # others \<Rightarrow>
          (case parse_signal p1 of
             Inl e \<Rightarrow> None
           | Inr sig \<Rightarrow> Some \<lparr>ssid = strip p0, signal = sig, security = parse_security p2\<rparr>)
      | _ \<Rightarrow> None)"

definition raw_records :: "string \<Rightarrow> network list" where
  \<comment> \<open>the records of an output, in the order of its lines\<close>
  "raw_records out = List.map_filter line_record (split (CHR 0x0A) (strip out))"

fun first_seen :: "string set \<Rightarrow> network list \<Rightarrow> network list" where
  "first_seen seen [] = []"
| "first_seen seen (r # rs) =
     (if ssid r \<noteq> [] \<and> ssid r \<notin> seen then r # first_seen (insert (ssid r) seen) rs
      else first_seen seen rs)"

section \<open>Tools and predicates used to state the properties\<close>

definition advances :: "wifi_connect \<Rightarrow> wifi_connect \<Rightarrow> bool" where
  \<comment> \<open>the connection status stays as it is or becomes \<open>connected\<close>\<close>
  "advances w w' = (connection_status w' = connection_status w \<or> connection_status w' = ''connected'')"

definition tool_ok :: tool where
  \<comment> \<open>a tool whose every command exits with status 0 after two seconds, printing nothing\<close>
  "tool_ok i cmd = Exits 2 0 [] []"

definition query_breaks :: tool where
  \<comment> \<open>the same tool, but the call that queries the interface raises\<close>
  "query_breaks i cmd =
     (if cmd = [''nmcli'', ''device'', ''show'', ''wlan0'']
      then Breaks ''[Errno 12] Cannot allocate memory''
      else Exits 2 0 [] [])"

definition returns :: "tool \<Rightarrow> nat \<Rightarrow> string list \<Rightarrow> bool" where
  \<comment> \<open>call number \<open>i\<close>, run without timeout and without \<open>check\<close>, returns a result\<close>
  "returns tool i cmd =
     (\<not> has_nul cmd \<and> (case tool i cmd of Exits secs rc out err \<Rightarrow> True | Breaks msg \<Rightarrow> False))"

definition exits_zero_within :: "tool \<Rightarrow> nat \<Rightarrow> string list \<Rightarrow> nat \<Rightarrow> bool" where
  \<comment> \<open>call number \<open>i\<close> ends within \<open>t\<close> seconds with exit status 0\<close>
  "exits_zero_within tool i cmd t =
     (\<not> has_nul cmd \<and>
      (case tool i cmd of Exits secs rc out err \<Rightarrow> secs \<le> t \<and> rc = 0 | Breaks msg \<Rightarrow> False))"

definition join_cmd :: "string \<Rightarrow> string \<Rightarrow> string list" where
  \<comment> \<open>the join command \<open>connect_to_network\<close> builds for a name and a credential\<close>
  "join_cmd name secret =
     (if secret \<noteq> [] then [''nmcli'', ''device'', ''wifi'', ''connect'', name, ''password'', secret]
      else [''nmcli'', ''device'', ''wifi'', ''connect'', name])"

section \<open>Lemmas on strings and the scan\<close>

lemma split_not_Nil: "split sep s \<noteq> []"
  by (induction s) (auto split: list.splits)

lemma line_record_Nil: "line_record [] = None"
  by (simp add: line_record_def)

lemma scan_loop_skip:
  "line_record line = None \<Longrightarrow> scan_loop (line # rest) acc seen = Inr res \<Longrightarrow>
   scan_loop rest acc seen = Inr res"
  by (simp add: line_record_def split: list.splits sum.splits if_splits)

lemma scan_loop_take:
  "line_record line = Some r \<Longrightarrow> scan_loop (line # rest) acc seen = Inr res \<Longrightarrow>
   (if ssid r \<noteq> [] \<and> ssid r \<notin> seen
    then scan_loop rest (acc @ [r]) (insert (ssid r) seen)
    else scan_loop rest acc seen) = Inr res"
proof -
  assume lr: "line_record line = Some r" and run: "scan_loop (line # rest) acc seen = Inr res"
  from lr have ne: "line \<noteq> []" by (auto simp: line_record_def)
  from lr obtain p0 p1 p2 others sig where
    sp: "split (CHR '':'') line = p0 # p1 # p2 # others" and
    ps: "parse_signal p1 = Inr sig" and
    r: "r = \<lparr>ssid = strip p0, signal = sig, security = parse_security p2\<rparr>"
    by (auto simp: line_record_def split: list.splits sum.splits)
  from run ne sp ps r show ?thesis by (auto split: if_splits)
qed

lemma scan_loop_first_seen:
  "scan_loop lines acc seen = Inr res \<Longrightarrow>
   res = acc @ first_seen seen (List.map_filter line_record lines)"
proof (induction lines arbitrary: acc seen)
  case Nil
  then show ?case by (simp add: List.map_filter_simps)
next
  case (Cons line rest)
  show ?case
  proof (cases "line_record line")
    case None
    from scan_loop_skip[OF None Cons.prems] have "scan_loop rest acc seen = Inr res" .
    from Cons.IH[OF this] None show ?thesis by (simp add: List.map_filter_simps)
  next
    case (Some r)
    note step = scan_loop_take[OF Some Cons.prems]
    show ?thesis
    proof (cases "ssid r \<noteq> [] \<and> ssid r \<notin> seen")
      case True
      with step have "scan_loop rest (acc @ [r]) (insert (ssid r) seen) = Inr res" by simp
      from Cons.IH[OF this] True Some show ?thesis by (simp add: List.map_filter_simps)
    next
      case False
      with step have "scan_loop rest acc seen = Inr res" by auto
      from Cons.IH[OF this] False Some show ?thesis by (auto simp add: List.map_filter_simps)
    qed
  qed
qed

lemma first_seen_member:
  "n \<in> set (first_seen seen rs) \<Longrightarrow> ssid n \<noteq> [] \<and> ssid n \<notin> seen \<and> n \<in> set rs"
  by (induction rs arbitrary: seen) (auto split: if_splits)

lemma first_seen_distinct: "distinct (map ssid (first_seen seen rs))"
  by (induction rs arbitrary: seen) (auto dest: first_seen_member)

lemma first_seen_find:
  "name \<noteq> [] \<Longrightarrow> name \<notin> seen \<Longrightarrow>
   find (\<lambda>r. ssid r = name) (first_seen seen rs) = find (\<lambda>r. ssid r = name) rs"
  by (induction rs arbitrary: seen) auto

lemma first_seen_split:
  "n \<in> set (first_seen seen rs) \<Longrightarrow>
   \<exists>before after. rs = before @ n # after \<and> ssid n \<notin> ssid ` set before"
proof (induction rs arbitrary: seen)
  case Nil
  then show ?case by simp
next
  case (Cons r rs)
  show ?case
  proof (cases "ssid r \<noteq> [] \<and> ssid r \<notin> seen")
    case True
    show ?thesis
    proof (cases "n = r")
      case True
      have "r # rs = [] @ n # rs \<and> ssid n \<notin> ssid ` set []" using True by simp
      then show ?thesis by blast
    next
      case False
      with True Cons.prems have mem: "n \<in> set (first_seen (insert (ssid r) seen) rs)" by simp
      from Cons.IH[OF mem] obtain before after where
        ba: "rs = before @ n # after" "ssid n \<notin> ssid ` set before" by blast
      from first_seen_member[OF mem] have "ssid n \<noteq> ssid r" by auto
      with ba have "r # rs = (r # before) @ n # after \<and> ssid n \<notin> ssid ` set (r # before)" by auto
      then show ?thesis by blast
    qed
  next
    case False
    with Cons.prems have mem: "n \<in> set (first_seen seen rs)" by auto
    from Cons.IH[OF mem] obtain before after where
      ba: "rs = before @ n # after" "ssid n \<notin> ssid ` set before" by blast
    from first_seen_member[OF mem] False have "ssid n \<noteq> ssid r" by auto
    with ba have "r # rs = (r # before) @ n # after \<and> ssid n \<notin> ssid ` set (r # before)" by auto
    then show ?thesis by blast
  qed
qed

lemma set_sort_strongest_first: "set (sort_strongest_first xs) = set xs"
  by (simp add: sort_strongest_first_def)

lemma distinct_sort_strongest_first:
  "distinct (map ssid xs) \<Longrightarrow> distinct (map ssid (sort_strongest_first xs))"
  by (simp add: sort_strongest_first_def distinct_map)

lemma sorted_sort_strongest_first:
  "sorted_wrt (\<lambda>a b. signal b \<le> signal a) (sort_strongest_first xs)"
proof -
  have "sorted (map (\<lambda>n. - signal n) (sort_key (\<lambda>n. - signal n) xs))"
    by (rule sorted_sort_key)
  then show ?thesis
    by (simp add: sort_strongest_first_def sorted_map)
qed

lemma find_Some_member: "find P xs = Some y \<Longrightarrow> y \<in> set xs \<and> P y"
  by (induction xs) (auto split: if_splits)

lemma find_unique:
  assumes "x \<in> set xs" and "P x" and u: "\<And>y. y \<in> set xs \<Longrightarrow> P y \<Longrightarrow> y = x"
  shows "find P xs = Some x"
proof (cases "find P xs")
  case None
  then have "\<not> (\<exists>z. z \<in> set xs \<and> P z)" by (simp add: find_None_iff)
  with assms(1,2) show ?thesis by blast
next
  case (Some y)
  from find_Some_member[OF Some] have "y \<in> set xs" "P y" by simp_all
  then have "y = x" by (rule u)
  with Some show ?thesis by simp
qed

lemma find_same_set:
  assumes d: "distinct (map f xs)" and s: "set ys = set xs"
  shows "find (\<lambda>r. f r = k) ys = find (\<lambda>r. f r = k) xs"
proof (cases "find (\<lambda>r. f r = k) xs")
  case None
  then have "\<forall>x\<in>set ys. f x \<noteq> k" using s by (auto simp: find_None_iff)
  then have "find (\<lambda>r. f r = k) ys = None" by (simp add: find_None_iff)
  with None show ?thesis by simp
next
  case (Some x)
  then have x: "x \<in> set xs" "f x = k"
    by (auto dest: find_Some_member)
  have inj: "inj_on f (set xs)" using d by (simp add: distinct_map)
  have "find (\<lambda>r. f r = k) ys = Some x"
  proof (rule find_unique)
    show "x \<in> set ys" using x s by simp
    show "f x = k" using x by simp
    fix y assume "y \<in> set ys" "f y = k"
    with x s inj show "y = x" by (auto dest: inj_onD)
  qed
  with Some show ?thesis by simp
qed

lemma parse_scan_first_seen:
  "parse_scan out = Inr nets \<Longrightarrow> nets = sort_strongest_first (first_seen {} (raw_records out))"
  by (auto simp: parse_scan_def raw_records_def split: sum.splits dest: scan_loop_first_seen)

lemma parse_scan_distinct: "parse_scan out = Inr nets \<Longrightarrow> distinct (map ssid nets)"
  by (auto dest!: parse_scan_first_seen intro: distinct_sort_strongest_first first_seen_distinct)

lemma parse_scan_sorted:
  "parse_scan out = Inr nets \<Longrightarrow> sorted_wrt (\<lambda>a b. signal b \<le> signal a) nets"
  by (auto dest!: parse_scan_first_seen intro: sorted_sort_strongest_first)

lemma parse_scan_first:
  assumes "parse_scan out = Inr nets" and "n \<in> set nets"
  shows "\<exists>before after. raw_records out = before @ n # after \<and> ssid n \<notin> ssid ` set before"
proof -
  from assms have "n \<in> set (first_seen {} (raw_records out))"
    by (auto dest!: parse_scan_first_seen simp: set_sort_strongest_first)
  then show ?thesis by (rule first_seen_split)
qed

lemma first_seen_keeps:
  "ssid r \<noteq> [] \<Longrightarrow> ssid r \<notin> seen \<Longrightarrow> ssid r \<notin> ssid ` set before \<Longrightarrow>
   r \<in> set (first_seen seen (before @ r # after))"
  by (induction before arbitrary: seen) auto

lemma parse_scan_keeps_first:
  assumes "parse_scan out = Inr nets" and "raw_records out = before @ r # after"
    and "ssid r \<noteq> []" and "ssid r \<notin> ssid ` set before"
  shows "r \<in> set nets"
proof -
  from assms(3,4) have "r \<in> set (first_seen {} (before @ r # after))"
    by (simp add: first_seen_keeps)
  with assms(1,2) show ?thesis
    by (auto dest!: parse_scan_first_seen simp: set_sort_strongest_first)
qed

lemma parse_scan_names:
  assumes "parse_scan out = Inr nets"
  shows "ssid ` set nets = ssid ` set (raw_records out) - {[]}"
proof (rule set_eqI, rule iffI)
  fix name
  assume "name \<in> ssid ` set nets"
  then obtain n where n: "n \<in> set nets" "ssid n = name" by auto
  from assms n(1) have "n \<in> set (first_seen {} (raw_records out))"
    by (auto dest!: parse_scan_first_seen simp: set_sort_strongest_first)
  from first_seen_member[OF this] n(2)
  show "name \<in> ssid ` set (raw_records out) - {[]}" by auto
next
  fix name
  assume "name \<in> ssid ` set (raw_records out) - {[]}"
  then have ex: "\<exists>x\<in>set (raw_records out). ssid x = name" and ne: "name \<noteq> []" by auto
  from split_list_first_prop[OF ex] obtain before r after where
    sp: "raw_records out = before @ r # after" "ssid r = name" "\<forall>y\<in>set before. ssid y \<noteq> name"
    by blast
  from sp(2,3) have "ssid r \<notin> ssid ` set before" by auto
  with parse_scan_keeps_first[OF assms sp(1)] sp(2) ne have "r \<in> set nets" by simp
  with sp(2) show "name \<in> ssid ` set nets" by auto
qed

lemma scan_wifi_networks_result:
  "scan_wifi_networks tool w = (Inr nets, w') \<Longrightarrow> nets = [] \<or> (\<exists>out. parse_scan out = Inr nets)"
  by (auto simp: scan_wifi_networks_def split: prod.splits sum.splits exn.splits)

lemma parse_signal_not_digit: "\<not> isdigit field \<Longrightarrow> parse_signal field = Inr (- 100)"
  by (simp add: parse_signal_def)

lemma parse_signal_minus_40: "parse_signal ''-40'' = Inr (- 100)"
  by code_simp

lemma parse_signal_empty: "parse_signal [] = Inr (- 100)"
  by code_simp

lemma parse_signal_40: "parse_signal ''40'' = Inr 40"
  by code_simp

lemma isdecimal_isdigit: "isdecimal_char c \<Longrightarrow> isdigit_char c"
  by (simp add: isdecimal_char_def isdigit_char_def Let_def)

lemma parse_signal_decimal:
  assumes "s \<noteq> []" and "list_all isdecimal_char s"
  shows "parse_signal s = Inr (foldl (\<lambda>acc c. 10 * acc + digit_value c) 0 s)"
proof -
  from assms(2) have "list_all isdigit_char s"
    by (induction s) (auto intro: isdecimal_isdigit)
  with assms show ?thesis
    by (simp add: parse_signal_def isdigit_def int_py_def)
qed

section \<open>The scan: what the claims say\<close>

text \<open>
  C5. Whenever the scan returns a list for an output of the tool: no name occurs twice
  in it; it is in descending order of signal level; every record in it is the first
  record of its name in the order of the output's lines; conversely the first record of
  every non-empty name is in it, so that its names are exactly the non-empty names of
  the output.
\<close>

theorem scan_names_once_first_kept_sorted:
  assumes "parse_scan out = Inr nets"
  shows "distinct (map ssid nets) \<and>
         sorted_wrt (\<lambda>a b. signal b \<le> signal a) nets \<and>
         (\<forall>n\<in>set nets. \<exists>before after.
             raw_records out = before @ n # after \<and> ssid n \<notin> ssid ` set before) \<and>
         (\<forall>before r after.
             raw_records out = before @ r # after \<and> ssid r \<noteq> [] \<and> ssid r \<notin> ssid ` set before
             \<longrightarrow> r \<in> set nets) \<and>
         ssid ` set nets = ssid ` set (raw_records out) - {[]}"
proof -
  note d = parse_scan_distinct[OF assms]
  note s = parse_scan_sorted[OF assms]
  have f: "\<forall>n\<in>set nets. \<exists>before after.
             raw_records out = before @ n # after \<and> ssid n \<notin> ssid ` set before"
    using parse_scan_first[OF assms] by blast
  have k: "\<forall>before r after.
             raw_records out = before @ r # after \<and> ssid r \<noteq> [] \<and> ssid r \<notin> ssid ` set before
             \<longrightarrow> r \<in> set nets"
    using parse_scan_keeps_first[OF assms] by blast
  note n = parse_scan_names[OF assms]
  from d s f k n show ?thesis by (intro conjI)
qed

theorem scan_names_once_first_kept_sorted_witness:
  "parse_scan (''Home:40:WPA2'' @ [CHR 0x0A] @ ''Cafe:70:'' @ [CHR 0x0A] @ ''Home:90:WPA2'' @ [CHR 0x0A]) =
     Inr [\<lparr>ssid = ''Cafe'', signal = 70, security = ''Open''\<rparr>,
          \<lparr>ssid = ''Home'', signal = 40, security = ''WPA2''\<rparr>] \<and>
   distinct (map ssid [\<lparr>ssid = ''Cafe'', signal = 70, security = ''Open''\<rparr>,
                       \<lparr>ssid = ''Home'', signal = 40, security = ''WPA2''\<rparr>]) \<and>
   sorted_wrt (\<lambda>a b. signal b \<le> signal a)
     [\<lparr>ssid = ''Cafe'', signal = 70, security = ''Open''\<rparr>,
      \<lparr>ssid = ''Home'', signal = 40, security = ''WPA2''\<rparr>] \<and>
   ssid ` set [\<lparr>ssid = ''Cafe'', signal = 70, security = ''Open''\<rparr>,
               \<lparr>ssid = ''Home'', signal = 40, security = ''WPA2''\<rparr>] =
   ssid ` set (raw_records (''Home:40:WPA2'' @ [CHR 0x0A] @ ''Cafe:70:'' @ [CHR 0x0A] @ ''Home:90:WPA2'' @ [CHR 0x0A])) - {[]}"
proof -
  have h: "parse_scan (''Home:40:WPA2'' @ [CHR 0x0A] @ ''Cafe:70:'' @ [CHR 0x0A] @ ''Home:90:WPA2'' @ [CHR 0x0A]) =
     Inr [\<lparr>ssid = ''Cafe'', signal = 70, security = ''Open''\<rparr>,
          \<lparr>ssid = ''Home'', signal = 40, security = ''WPA2''\<rparr>]"
    by code_simp
  from scan_names_once_first_kept_sorted [OF h] h show ?thesis
    by (elim conjE, intro conjI) assumption+
qed

text \<open>
  C6 says that of several records with one name the strongest is kept. The loop drops
  duplicates before the list is sorted, so the first record is kept whatever its level:
  of \<open>Home:40:WPA2\<close> followed by \<open>Home:70:WPA2\<close> the scan returns the record with
  level 40.
\<close>

theorem scan_keeps_weaker_first_record:
  "raw_records (''Home:40:WPA2'' @ [CHR 0x0A] @ ''Home:70:WPA2'' @ [CHR 0x0A]) =
     [\<lparr>ssid = ''Home'', signal = 40, security = ''WPA2''\<rparr>,
      \<lparr>ssid = ''Home'', signal = 70, security = ''WPA2''\<rparr>] \<and>
   parse_scan (''Home:40:WPA2'' @ [CHR 0x0A] @ ''Home:70:WPA2'' @ [CHR 0x0A]) =
     Inr [\<lparr>ssid = ''Home'', signal = 40, security = ''WPA2''\<rparr>] \<and>
   parse_scan (''Home:40:WPA2'' @ [CHR 0x0A] @ ''Home:70:WPA2'' @ [CHR 0x0A]) \<noteq>
     Inr [\<lparr>ssid = ''Home'', signal = 70, security = ''WPA2''\<rparr>]"
  by code_simp

text \<open>
  C6, amended. Whenever the scan returns a list, the record it holds for a non-empty name
  is the first record of that name in the order of the output's lines (and it holds none
  when the output has none): duplicates are resolved before sorting, by position.
\<close>

theorem scan_record_of_name_is_first:
  assumes "parse_scan out = Inr nets" and "name \<noteq> []"
  shows "find (\<lambda>r. ssid r = name) nets = find (\<lambda>r. ssid r = name) (raw_records out)"
proof -
  let ?kept = "first_seen {} (raw_records out)"
  from assms(1) have nets: "nets = sort_strongest_first ?kept"
    by (rule parse_scan_first_seen)
  have "find (\<lambda>r. ssid r = name) nets = find (\<lambda>r. ssid r = name) ?kept"
    unfolding nets by (rule find_same_set) (simp_all add: first_seen_distinct set_sort_strongest_first)
  also have "\<dots> = find (\<lambda>r. ssid r = name) (raw_records out)"
    using assms(2) by (simp add: first_seen_find)
  finally show ?thesis .
qed

theorem scan_record_of_name_is_first_witness:
  "parse_scan (''Home:40:WPA2'' @ [CHR 0x0A] @ ''Home:70:WPA2'' @ [CHR 0x0A]) =
     Inr [\<lparr>ssid = ''Home'', signal = 40, security = ''WPA2''\<rparr>] \<and>
   ''Home'' \<noteq> [] \<and>
   find (\<lambda>r. ssid r = ''Home'') [\<lparr>ssid = ''Home'', signal = 40, security = ''WPA2''\<rparr>] =
   find (\<lambda>r. ssid r = ''Home'')
     (raw_records (''Home:40:WPA2'' @ [CHR 0x0A] @ ''Home:70:WPA2'' @ [CHR 0x0A]))"
proof -
  have h: "parse_scan (''Home:40:WPA2'' @ [CHR 0x0A] @ ''Home:70:WPA2'' @ [CHR 0x0A]) =
     Inr [\<lparr>ssid = ''Home'', signal = 40, security = ''WPA2''\<rparr>]"
    by code_simp
  have n: "''Home'' \<noteq> []" by simp
  from scan_record_of_name_is_first [OF h n] h n show ?thesis by blast
qed

text \<open>
  C8 expects the level -40 in the result of the scenario. The field \<open>-40\<close> is not a
  string of digits, so the record gets the level -100.
\<close>

theorem scenario_level_is_not_minus_40:
  "parse_scan (''Home-5G:-40:WPA2'' @ [CHR 0x0A] @ ''Home-5G:-70:WPA2'' @ [CHR 0x0A] @ '':-50:'' @ [CHR 0x0A]) \<noteq>
     Inr [\<lparr>ssid = ''Home-5G'', signal = - 40, security = ''WPA2''\<rparr>]"
  by code_simp

text \<open>
  C8, amended. For the output with the three records (Home-5G, -40, WPA2),
  (Home-5G, -70, WPA2) and (empty name, -50, empty security) the scan returns exactly
  the single record (Home-5G, -100, WPA2).
\<close>

theorem scenario_returns_single_record:
  "parse_scan (''Home-5G:-40:WPA2'' @ [CHR 0x0A] @ ''Home-5G:-70:WPA2'' @ [CHR 0x0A] @ '':-50:'' @ [CHR 0x0A]) =
     Inr [\<lparr>ssid = ''Home-5G'', signal = - 100, security = ''WPA2''\<rparr>]"
  by code_simp

text \<open>
  C10. A field of decimal digits gives its value and a field that \<open>isdigit()\<close> rejects
  gives -100 (\<open>parse_signal_decimal\<close>, \<open>parse_signal_not_digit\<close>); but a field such as
  the single character SUPERSCRIPT TWO passes \<open>isdigit()\<close> and makes \<open>int()\<close> raise:
  no level -100 is set, and the whole scan of an output with such a line fails.
\<close>

theorem superscript_signal_raises:
  "isdigit [CHR 0xB2] \<and>
   parse_signal [CHR 0xB2] =
     Inl (ValueError (''invalid literal for int() with base 10: '' @ [CHR 0x27, CHR 0xB2, CHR 0x27])) \<and>
   parse_scan (''a'' @ [CHR 0x5C] @ '':'' @ [CHR 0xB2] @ '':70:WPA2'' @ [CHR 0x0A]) =
     Inl (ValueError (''invalid literal for int() with base 10: '' @ [CHR 0x27, CHR 0xB2, CHR 0x27]))"
  by code_simp

section \<open>Lemmas on the adapter, the views and the lifetime\<close>

lemma advances_refl: "advances w w"
  by (simp add: advances_def)

lemma advances_trans: "advances w w1 \<Longrightarrow> advances w1 w2 \<Longrightarrow> advances w w2"
  by (auto simp: advances_def)

lemma subprocess_run_frame:
  "subprocess_run tool cmd t c w = (r, w') \<Longrightarrow>
   connection_status w' = connection_status w \<and> is_hotspot_active w' = is_hotspot_active w \<and>
   shutdown_threads w' = shutdown_threads w \<and> exited w' = exited w \<and>
   join_calls w' = join_calls w \<and> interface w' = interface w \<and> hotspot_name w' = hotspot_name w"
  by (auto simp: subprocess_run_def Let_def split: if_splits outcome.splits)

lemma subprocess_run_advances: "subprocess_run tool cmd t c w = (r, w') \<Longrightarrow> advances w w'"
  by (simp add: advances_def subprocess_run_frame)

lemma verify_and_return_frame:
  "verify_and_return tool w = (b, w') \<Longrightarrow>
   connection_status w' = ''connected'' \<and> is_hotspot_active w' = is_hotspot_active w \<and>
   shutdown_threads w' = shutdown_threads w \<and> exited w' = exited w \<and>
   join_calls w' = join_calls w"
  by (auto simp: verify_and_return_def Let_def split: prod.splits sum.splits if_splits
           dest!: subprocess_run_frame)

lemma run_join_frame:
  "run_join tool cmd w = (b, w') \<Longrightarrow>
   advances w w' \<and> (b \<longrightarrow> connection_status w' = ''connected'') \<and>
   is_hotspot_active w' = is_hotspot_active w \<and>
   shutdown_threads w' = shutdown_threads w \<and> exited w' = exited w \<and>
   join_calls w' = join_calls w"
  by (auto simp: run_join_def advances_def split: prod.splits sum.splits if_splits
           dest!: subprocess_run_frame verify_and_return_frame)

lemma connect_to_network_frame:
  "connect_to_network tool s p w = (b, w') \<Longrightarrow>
   advances w w' \<and> (b \<longrightarrow> connection_status w' = ''connected'') \<and>
   is_hotspot_active w' = is_hotspot_active w \<and>
   shutdown_threads w' = shutdown_threads w \<and> exited w' = exited w \<and>
   join_calls w' = join_calls w + 1"
  by (auto simp: connect_to_network_def Let_def advances_def
           split: prod.splits sum.splits if_splits json_value.splits
           dest!: subprocess_run_frame run_join_frame)

lemma shutdown_hotspot_frame:
  "connection_status (shutdown_hotspot tool w) = connection_status w \<and>
   shutdown_threads (shutdown_hotspot tool w) = shutdown_threads w \<and>
   exited (shutdown_hotspot tool w) = exited w"
  by (auto simp: shutdown_hotspot_def split: prod.splits sum.splits dest!: subprocess_run_frame)

lemma shutdown_hotspot_delayed_status:
  "connection_status (shutdown_hotspot_delayed tool w) = connection_status w"
  by (simp add: shutdown_hotspot_delayed_def shutdown_hotspot_frame)

lemma create_hotspot_status:
  "create_hotspot tool w = (b, w') \<Longrightarrow> connection_status w' = connection_status w"
  by (auto simp: create_hotspot_def split: prod.splits sum.splits if_splits dest!: subprocess_run_frame)

lemma startup_status: "connection_status (startup tool w) = connection_status w"
  by (auto simp: startup_def shutdown_hotspot_frame split: prod.splits bool.splits
           dest!: create_hotspot_status)

lemma scan_wifi_networks_frame:
  "scan_wifi_networks tool w = (r, w') \<Longrightarrow>
   connection_status w' = connection_status w \<and> is_hotspot_active w' = is_hotspot_active w \<and>
   shutdown_threads w' = shutdown_threads w \<and> exited w' = exited w \<and> join_calls w' = join_calls w"
  by (auto simp: scan_wifi_networks_def split: prod.splits sum.splits exn.splits dest!: subprocess_run_frame)

lemma scan_networks_status:
  "scan_networks tool w = (r, w') \<Longrightarrow> connection_status w' = connection_status w"
  by (auto simp: scan_networks_def split: prod.splits sum.splits dest!: scan_wifi_networks_frame)

lemma connect_wifi_advances: "connect_wifi tool data w = (r, w') \<Longrightarrow> advances w w'"
  by (auto simp: connect_wifi_def Let_def advances_def split: body.splits prod.splits bool.splits if_splits
           dest!: connect_to_network_frame)

lemma call_view_advances: "call_view tool v data w = (r, w') \<Longrightarrow> advances w w'"
  by (cases v) (auto simp: advances_def dest: scan_networks_status connect_wifi_advances)

lemma dispatch_advances: "dispatch tool m path data w = (r, w') \<Longrightarrow> advances w w'"
  by (auto simp: dispatch_def advances_refl split: option.splits prod.splits if_splits
           dest: call_view_advances)

lemma step_advances: "advances w (step tool ev w)"
proof (cases "exited w")
  case True
  then show ?thesis by (simp add: step_def advances_refl)
next
  case False
  show ?thesis
  proof (cases ev)
    case (Request m path data)
    obtain r w' where d: "dispatch tool m path data w = (r, w')" by (cases "dispatch tool m path data w")
    from dispatch_advances[OF d] d False Request show ?thesis by (simp add: step_def)
  next
    case Thread_wakes
    with False show ?thesis
      by (simp add: step_def advances_def shutdown_hotspot_delayed_status)
  next
    case Server_stops
    with False show ?thesis
      by (simp add: step_def advances_def shutdown_hotspot_frame)
  qed
qed

lemma trace_Cons: "\<exists>t. trace tool evs w = w # t"
  by (cases evs) simp_all

lemma never_back:
  "count_changes ''connected'' ''disconnected'' (map connection_status (trace tool evs w)) = 0"
proof (induction evs arbitrary: w)
  case Nil
  show ?case by simp
next
  case (Cons ev evs)
  obtain t where t: "trace tool evs (step tool ev w) = step tool ev w # t"
    using trace_Cons by blast
  have "\<not> (connection_status w = ''connected'' \<and> connection_status (step tool ev w) = ''disconnected'')"
    using step_advances[of w tool ev] by (auto simp: advances_def)
  with Cons[of "step tool ev w"] t show ?case by simp
qed

lemma at_most_once:
  "count_changes ''disconnected'' ''connected'' (map connection_status (trace tool evs w))
     \<le> (if connection_status w = ''connected'' then 0 else 1)"
proof (induction evs arbitrary: w)
  case Nil
  show ?case by simp
next
  case (Cons ev evs)
  obtain t where t: "trace tool evs (step tool ev w) = step tool ev w # t"
    using trace_Cons by blast
  note ih = Cons[of "step tool ev w"]
  note adv = step_advances[of w tool ev]
  show ?case
  proof (cases "connection_status w = ''connected''")
    case True
    with adv have "connection_status (step tool ev w) = ''connected''" by (auto simp: advances_def)
    with ih t True show ?thesis by simp
  next
    case False
    show ?thesis
    proof (cases "connection_status (step tool ev w) = ''connected''")
      case True
      with ih t False show ?thesis by simp
    next
      case notc: False
      with ih t False show ?thesis by simp
    qed
  qed
qed

lemma connect_wifi_falsy_ssid:
  "\<not> truthy (dict_get d ''ssid'' py_None) \<Longrightarrow>
   connect_wifi tool (Dict d) w = (error_envelope ''SSID is required'', w)"
  by (simp add: connect_wifi_def Let_def)

lemma connect_wifi_no_dict:
  "data = Raises msg \<or> data = NotDict tname \<Longrightarrow>
   snd (connect_wifi tool data w) = w \<and> (\<exists>m. fst (connect_wifi tool data w) = error_envelope m)"
  by (auto simp: connect_wifi_def)

lemma ok_join:
  "connect_to_network tool_ok (JString ''Home-5G'') (JString ''secret'') init =
     (True, init\<lparr>connection_status := ''connected'',
                commands := [[''nmcli'', ''connection'', ''delete'', ''id'', ''Home-5G''],
                             [''nmcli'', ''device'', ''wifi'', ''connect'', ''Home-5G'', ''password'', ''secret''],
                             [''nmcli'', ''device'', ''show'', ''wlan0'']],
                join_calls := 1\<rparr>)"
  by (simp add: connect_to_network_def run_join_def verify_and_return_def subprocess_run_def
        has_nul_def timed_out_def tool_ok_def init_def Let_def)

lemma subprocess_run_returns:
  "subprocess_run tool cmd None False w =
     (if returns tool (length (commands w)) cmd
      then (case tool (length (commands w)) cmd of
              Exits secs rc out err \<Rightarrow> Inr \<lparr>returncode = rc, stdout = out, stderr = err\<rparr>
            | Breaks msg \<Rightarrow> Inl (OtherError msg))
      else fst (subprocess_run tool cmd None False w),
      if has_nul cmd then w else w\<lparr>commands := commands w @ [cmd]\<rparr>)"
  by (auto simp: subprocess_run_def returns_def timed_out_def Let_def split: outcome.splits)

lemma verify_and_return_iff:
  "fst (verify_and_return tool w) =
     returns tool (length (commands w)) [''nmcli'', ''device'', ''show'', interface w]"
  by (auto simp: verify_and_return_def subprocess_run_def returns_def timed_out_def Let_def
           split: outcome.splits prod.splits sum.splits)

lemma run_join_iff:
  "fst (run_join tool cmd w) =
     (exits_zero_within tool (length (commands w)) cmd 30 \<and>
      returns tool (Suc (length (commands w))) [''nmcli'', ''device'', ''show'', interface w])"
proof (cases "exits_zero_within tool (length (commands w)) cmd 30")
  case True
  then obtain secs out err where
    o: "tool (length (commands w)) cmd = Exits secs 0 out err" "secs \<le> 30" "\<not> has_nul cmd"
    by (auto simp: exits_zero_within_def split: outcome.splits)
  then have "run_join tool cmd w = verify_and_return tool (w\<lparr>commands := commands w @ [cmd]\<rparr>)"
    by (simp add: run_join_def subprocess_run_def timed_out_def Let_def)
  with True show ?thesis by (simp add: verify_and_return_iff)
next
  case False
  then have "fst (run_join tool cmd w) = False"
    by (auto simp: run_join_def subprocess_run_def timed_out_def exits_zero_within_def Let_def
             split: outcome.splits)
  with False show ?thesis by simp
qed

lemma connect_to_network_iff:
  "fst (connect_to_network tool (JString name) (JString secret) w) =
     (returns tool (length (commands w)) [''nmcli'', ''connection'', ''delete'', ''id'', name] \<and>
      exits_zero_within tool (length (commands w) + 1) (join_cmd name secret) 30 \<and>
      returns tool (length (commands w) + 2) [''nmcli'', ''device'', ''show'', interface w])"
proof (cases "returns tool (length (commands w)) [''nmcli'', ''connection'', ''delete'', ''id'', name]")
  case False
  then have "fst (connect_to_network tool (JString name) (JString secret) w) = False"
    by (auto simp: connect_to_network_def subprocess_run_def returns_def timed_out_def Let_def
             split: outcome.splits)
  with False show ?thesis by simp
next
  case True
  let ?w = "w\<lparr>join_calls := join_calls w + 1\<rparr>"
  let ?w1 = "?w\<lparr>commands := commands ?w @ [[''nmcli'', ''connection'', ''delete'', ''id'', name]]\<rparr>"
  from True obtain secs rc out err where
    o: "tool (length (commands w)) [''nmcli'', ''connection'', ''delete'', ''id'', name] = Exits secs rc out err"
       "\<not> has_nul [''nmcli'', ''connection'', ''delete'', ''id'', name]"
    by (auto simp: returns_def split: outcome.splits)
  then have "connect_to_network tool (JString name) (JString secret) w = run_join tool (join_cmd name secret) ?w1"
    by (simp add: connect_to_network_def subprocess_run_def timed_out_def join_cmd_def Let_def)
  with True show ?thesis by (simp add: run_join_iff)
qed

lemma run_join_failure_status:
  "\<not> exits_zero_within tool (length (commands w)) cmd 30 \<Longrightarrow>
   connection_status (snd (run_join tool cmd w)) = connection_status w"
  by (auto simp: run_join_def subprocess_run_def timed_out_def exits_zero_within_def Let_def
           split: outcome.splits)

lemma connect_failure_status:
  assumes "\<not> exits_zero_within tool (length (commands w) + 1) (join_cmd name secret) 30"
  shows "connection_status (snd (connect_to_network tool (JString name) (JString secret) w)) =
         connection_status w"
proof (cases "returns tool (length (commands w)) [''nmcli'', ''connection'', ''delete'', ''id'', name]")
  case False
  then show ?thesis
    by (auto simp: connect_to_network_def subprocess_run_def returns_def timed_out_def Let_def
             split: outcome.splits)
next
  case True
  let ?w = "w\<lparr>join_calls := join_calls w + 1\<rparr>"
  let ?w1 = "?w\<lparr>commands := commands ?w @ [[''nmcli'', ''connection'', ''delete'', ''id'', name]]\<rparr>"
  from True obtain secs rc out err where
    o: "tool (length (commands w)) [''nmcli'', ''connection'', ''delete'', ''id'', name] = Exits secs rc out err"
       "\<not> has_nul [''nmcli'', ''connection'', ''delete'', ''id'', name]"
    by (auto simp: returns_def split: outcome.splits)
  then have "connect_to_network tool (JString name) (JString secret) w = run_join tool (join_cmd name secret) ?w1"
    by (simp add: connect_to_network_def subprocess_run_def timed_out_def join_cmd_def Let_def)
  moreover from assms have "\<not> exits_zero_within tool (length (commands ?w1)) (join_cmd name secret) 30"
    by simp
  ultimately show ?thesis
    using run_join_failure_status[of tool ?w1 "join_cmd name secret"] by simp
qed

lemma connect_nonzero_exit:
  assumes "tool (length (commands w) + 1) (join_cmd name secret) = Exits secs rc out err" and "rc \<noteq> 0"
  shows "fst (connect_to_network tool (JString name) (JString secret) w) = False"
  using assms by (simp add: connect_to_network_iff exits_zero_within_def)

lemma connect_timeout:
  assumes "tool (length (commands w) + 1) (join_cmd name secret) = Exits secs rc out err" and "30 < secs"
  shows "fst (connect_to_network tool (JString name) (JString secret) w) = False"
  using assms by (simp add: connect_to_network_iff exits_zero_within_def)

lemma tool_ok_no_address:
  "tool_ok 2 [''nmcli'', ''device'', ''show'', ''wlan0''] = Exits 2 0 [] [] \<and>
   \<not> contains ''IP4.ADDRESS'' [] \<and>
   fst (connect_to_network tool_ok (JString ''Home-5G'') (JString ''secret'') init) = True"
  by (simp add: ok_join tool_ok_def)

section \<open>The HTTP service and the adapter: what the claims say\<close>

text \<open>
  C1 says the service has a POST /shutdown endpoint that tears the access point down,
  answers the success envelope and ends the process. \<open>setup_routes\<close> registers no such
  route, although the page's own \<open>shutdownPortal()\<close> posts to it: every request for
  \<open>/shutdown\<close> is answered 404 and leaves the state as it is, access point and process
  included.
\<close>

theorem shutdown_route_missing: "dispatch tool m ''/shutdown'' data w = (NotFound, w)"
  by (simp add: dispatch_def url_map_def)

text \<open>
  C2. For a POST /connect whose body carries a non-empty name, when the adapter's join
  reports success: the response is the success envelope with \<open>connected\<close> true, the
  name echoed and a message (a non-empty text around the name); the connection status is
  \<open>connected\<close> afterwards; and exactly one more shutdown thread has been started, which
  has not run when the response is returned (the process has not ended and the access
  point flag is as before).
\<close>

theorem connect_success_response_and_state:
  assumes "map_of d ''ssid'' = Some (JString name)" and "name \<noteq> []"
    and "fst (connect_to_network tool (JString name) (dict_get d ''password'' (JString [])) w)"
  shows "fst (connect_wifi tool (Dict d) w) =
           Json [(''success'', FBool True),
                 (''message'', FStr (''Successfully connected to '' @ name @
                                    ''! Portal will shut down in a few seconds.'')),
                 (''connected'', FBool True),
                 (''ssid'', FValue (JString name))] \<and>
         connection_status (snd (connect_wifi tool (Dict d) w)) = ''connected'' \<and>
         shutdown_threads (snd (connect_wifi tool (Dict d) w)) = shutdown_threads w + 1 \<and>
         exited (snd (connect_wifi tool (Dict d) w)) = exited w \<and>
         is_hotspot_active (snd (connect_wifi tool (Dict d) w)) = is_hotspot_active w"
proof -
  let ?pw = "dict_get d ''password'' (JString [])"
  obtain b w1 where c: "connect_to_network tool (JString name) ?pw w = (b, w1)"
    by (cases "connect_to_network tool (JString name) ?pw w")
  with assms(3) have b: "b" by simp
  from connect_to_network_frame[OF c] b have fr:
    "connection_status w1 = ''connected''" "is_hotspot_active w1 = is_hotspot_active w"
    "shutdown_threads w1 = shutdown_threads w" "exited w1 = exited w"
    by simp_all
  from assms(1,2) have s: "dict_get d ''ssid'' py_None = JString name"
    by (simp add: dict_get_def)
  from s assms(2) c b fr show ?thesis
    by (simp add: connect_wifi_def Let_def)
qed

theorem connect_success_response_and_state_witness:
  "map_of [(''ssid'', JString ''Home-5G''), (''password'', JString ''secret'')] ''ssid'' =
     Some (JString ''Home-5G'') \<and>
   ''Home-5G'' \<noteq> [] \<and>
   fst (connect_to_network tool_ok (JString ''Home-5G'')
          (dict_get [(''ssid'', JString ''Home-5G''), (''password'', JString ''secret'')] ''password'' (JString []))
          init) \<and>
   fst (connect_wifi tool_ok (Dict [(''ssid'', JString ''Home-5G''), (''password'', JString ''secret'')]) init) =
     Json [(''success'', FBool True),
           (''message'', FStr ''Successfully connected to Home-5G! Portal will shut down in a few seconds.''),
           (''connected'', FBool True),
           (''ssid'', FValue (JString ''Home-5G''))] \<and>
   connection_status
     (snd (connect_wifi tool_ok (Dict [(''ssid'', JString ''Home-5G''), (''password'', JString ''secret'')]) init)) =
     ''connected'' \<and>
   shutdown_threads
     (snd (connect_wifi tool_ok (Dict [(''ssid'', JString ''Home-5G''), (''password'', JString ''secret'')]) init)) = 1"
proof -
  have h1: "map_of [(''ssid'', JString ''Home-5G''), (''password'', JString ''secret'')] ''ssid'' =
     Some (JString ''Home-5G'')" by simp
  have h2: "''Home-5G'' \<noteq> []" by simp
  have h3: "fst (connect_to_network tool_ok (JString ''Home-5G'')
          (dict_get [(''ssid'', JString ''Home-5G''), (''password'', JString ''secret'')] ''password'' (JString []))
          init)"
    by (simp add: dict_get_def ok_join)
  from connect_success_response_and_state [OF h1 h2 h3] h1 h2 h3 show ?thesis
    by (simp add: init_def)
qed

text \<open>
  C3 says a join attempt that does not report success leaves the connection status
  \<open>disconnected\<close>. \<open>connect_to_network\<close> sets the status as soon as the join command
  has exited with 0 and only then queries the interface; when that query raises, the
  attempt reports failure, \<open>/connect\<close> answers the error envelope, no shutdown thread is
  started, and the status is \<open>connected\<close>. (When the join command itself does not exit
  with 0 in time the status is left as it was: \<open>connect_failure_status\<close>.)
\<close>

theorem failed_connect_leaves_status_connected:
  "connection_status init = ''disconnected'' \<and>
   connect_wifi query_breaks (Dict [(''ssid'', JString ''Home-5G''), (''password'', JString ''secret'')]) init =
     (error_envelope ''Failed to connect to network. Please check your credentials and try again.'',
      init\<lparr>connection_status := ''connected'',
           commands := [[''nmcli'', ''connection'', ''delete'', ''id'', ''Home-5G''],
                        [''nmcli'', ''device'', ''wifi'', ''connect'', ''Home-5G'', ''password'', ''secret''],
                        [''nmcli'', ''device'', ''show'', ''wlan0'']],
           join_calls := 1\<rparr>)"
  by (simp add: connect_wifi_def dict_get_def connect_to_network_def run_join_def verify_and_return_def
        subprocess_run_def has_nul_def timed_out_def query_breaks_def init_def Let_def)

text \<open>
  C4. For a POST /connect whose body has no target network name or an empty one, the
  response is the validation error, and nothing else happens: the state is the one
  before, so \<open>connect_to_network\<close> was not called and no command was run.
\<close>

theorem connect_without_ssid_rejected:
  assumes "map_of d ''ssid'' = None \<or> map_of d ''ssid'' = Some (JString [])"
  shows "connect_wifi tool (Dict d) w = (error_envelope ''SSID is required'', w) \<and>
         join_calls (snd (connect_wifi tool (Dict d) w)) = join_calls w \<and>
         commands (snd (connect_wifi tool (Dict d) w)) = commands w"
proof -
  from assms have "\<not> truthy (dict_get d ''ssid'' py_None)"
    by (auto simp: dict_get_def py_None_def)
  then show ?thesis by (simp add: connect_wifi_falsy_ssid)
qed

theorem connect_without_ssid_rejected_witness:
  "connect_wifi tool_ok (Dict [(''ssid'', JString []), (''password'', JString ''secret'')]) init =
     (error_envelope ''SSID is required'', init) \<and>
   join_calls (snd (connect_wifi tool_ok (Dict [(''ssid'', JString []), (''password'', JString ''secret'')]) init)) = 0"
proof -
  have h: "map_of [(''ssid'', JString []), (''password'', JString ''secret'')] ''ssid'' = None \<or>
           map_of [(''ssid'', JString []), (''password'', JString ''secret'')] ''ssid'' = Some (JString [])"
    by simp
  from connect_without_ssid_rejected [OF h, of tool_ok init] show ?thesis by (simp add: init_def)
qed

text \<open>
  C7 says the join returns true exactly when the join command ends within 30 seconds
  with exit status 0. With \<open>query_breaks\<close> the join command does so, and the join
  returns false, because the interface query that follows (meant for logging only)
  raises inside the same \<open>try\<close>. The three cases the claim lists hold:
  \<open>connect_nonzero_exit\<close>, \<open>connect_timeout\<close>, \<open>tool_ok_no_address\<close>; the exact condition
  is \<open>connect_to_network_iff\<close>.
\<close>

theorem join_exit_zero_reported_failed:
  "query_breaks 1 [''nmcli'', ''device'', ''wifi'', ''connect'', ''Home-5G'', ''password'', ''secret''] =
     Exits 2 0 [] [] \<and>
   fst (connect_to_network query_breaks (JString ''Home-5G'') (JString ''secret'') init) = False"
  by (simp add: connect_to_network_def run_join_def verify_and_return_def
        subprocess_run_def has_nul_def timed_out_def query_breaks_def init_def Let_def)

text \<open>
  C9. Along every sequence of requests, thread wake-ups and server stops of one process,
  whatever the tool does, the connection status goes from \<open>disconnected\<close> to
  \<open>connected\<close> at most once and never from \<open>connected\<close> to \<open>disconnected\<close>.
\<close>

theorem connection_status_changes_once_never_back: "count_changes ''disconnected'' ''connected''
     (map connection_status (trace tool evs (startup tool init))) \<le> 1 \<and>
   count_changes ''connected'' ''disconnected''
     (map connection_status (trace tool evs (startup tool init))) = 0"
proof -
  have "count_changes ''disconnected'' ''connected''
     (map connection_status (trace tool evs (startup tool init))) \<le> 1"
    using at_most_once[of tool evs "startup tool init"] by (simp split: if_splits)
  then show ?thesis by (simp add: never_back)
qed

end
